theory Spec2Isabelle
  imports Main
begin

section \<open>The /boats route handlers of the cargo management API (boats.js)\<close>

text \<open>
  The development embeds the handlers of \<^verbatim>\<open>boats.js\<close> that touch the Boat--Load
  relationship: the single-boat GET, the boat DELETE, PUT and DELETE of
  \<^verbatim>\<open>/:boat_id/loads/:load_id\<close> (assign and unassign) and the PATCH/PUT of a boat.
  A handler is a function from the request and the datastore to what the caller observes
  (a response, no response at all, or a thrown error) and the datastore afterwards.
\<close>

subsection \<open>Values, keys and stored records\<close>

text \<open>Property values that the handlers copy without looking inside.\<close>

datatype jsval = JUndefined | JNull | JStr string | JNum int | JBool bool

text \<open>
  A datastore key as the handlers use it: \<^verbatim>\<open>datastore.key([kind, datastore.int(id)])\<close>.
  The handlers read only its \<^verbatim>\<open>id\<close> property, which carries the identifier as text.
\<close>

record key =
  key_kind :: string
  key_id :: string

definition datastore_key :: "string \<Rightarrow> string \<Rightarrow> key" where
  "datastore_key k i = \<lparr>key_kind = k, key_id = i\<rparr>"

text \<open>
  The properties of a stored Boat and a stored Load that the handlers read or write.
  A property that a record does not have reads as \<open>JUndefined\<close>; a Load's carrier is
  \<open>None\<close> for \<^verbatim>\<open>null\<close> and the Boat's key otherwise.
\<close>

record boat =
  boat_name :: jsval
  boat_type :: jsval
  boat_length :: jsval
  boat_owner :: jsval
  boat_isPublic :: jsval
  boat_loads :: "key list"

record load =
  load_volume :: jsval
  load_carrier :: "key option"
  load_content :: jsval
  load_creation_date :: jsval

subsection \<open>The datastore\<close>

text \<open>
  Modelled from the spec: the storage adapter (\<^verbatim>\<open>database.js\<close> and the datastore
  client are not among the sources). It is a key-addressed record store with get-by-key,
  update as a whole-record overwrite, and delete. The two kinds are two tables addressed
  by the key's identifier; \<open>ds_log\<close> records the writes in the order they are made.
\<close>

datatype ds_op = DsUpdate key | DsDelete key

record datastore =
  boat_tbl :: "string \<rightharpoonup> boat"
  load_tbl :: "string \<rightharpoonup> load"
  ds_log :: "ds_op list"

definition get_boat :: "datastore \<Rightarrow> key \<Rightarrow> boat option" where
  "get_boat s k = (if key_kind k = ''Boat'' then boat_tbl s (key_id k) else None)"

definition get_load :: "datastore \<Rightarrow> key \<Rightarrow> load option" where
  "get_load s k = (if key_kind k = ''Load'' then load_tbl s (key_id k) else None)"

text \<open>A get that only needs the key of the record found (the single-boat fetch).\<close>

definition get_entity_key :: "datastore \<Rightarrow> key \<Rightarrow> key option" where
  "get_entity_key s k =
     (if get_boat s k \<noteq> None \<or> get_load s k \<noteq> None then Some k else None)"

definition update_boat :: "key \<Rightarrow> boat \<Rightarrow> datastore \<Rightarrow> datastore" where
  "update_boat k b s =
     s\<lparr>boat_tbl := (boat_tbl s)(key_id k \<mapsto> b), ds_log := ds_log s @ [DsUpdate k]\<rparr>"

definition update_load :: "key \<Rightarrow> load \<Rightarrow> datastore \<Rightarrow> datastore" where
  "update_load k l s =
     s\<lparr>load_tbl := (load_tbl s)(key_id k \<mapsto> l), ds_log := ds_log s @ [DsUpdate k]\<rparr>"

definition delete_boat :: "key \<Rightarrow> datastore \<Rightarrow> datastore" where
  "delete_boat k s =
     s\<lparr>boat_tbl := (boat_tbl s)(key_id k := None), ds_log := ds_log s @ [DsDelete k]\<rparr>"

subsection \<open>Requests and what the caller observes\<close>

text \<open>
  The request as the handlers read it: the two facts attached by the authentication
  middleware, the route parameters, and the parts of the URL used for self links.
\<close>

record request =
  authenticated :: bool
  sub :: string
  boat_id :: string
  load_id :: string
  protocol :: string
  host :: string
  baseUrl :: string

datatype js_error = ReferenceError string | TypeError string

record load_json =
  lj_id :: string
  lj_self :: string

record boat_json =
  bj_id :: string
  bj_name :: jsval
  bj_type :: jsval
  bj_length :: jsval
  bj_loads :: "load_json list"
  bj_self :: string

datatype body = NoBody | ErrorBody string | BoatBody boat_json

text \<open>
  \<open>Responded\<close> is \<^verbatim>\<open>res.status(code).json(body)\<close>; \<open>NoResponse\<close> is a handler that
  returns without sending anything; \<open>Thrown\<close> is an error raised inside the handler.
\<close>

datatype outcome = Responded nat body | NoResponse | Thrown js_error

subsection \<open>Identifiers in scope\<close>

text \<open>
  The names that \<^verbatim>\<open>boats.js\<close> binds at module level (its \<^verbatim>\<open>var\<close> declarations),
  together with the names of the runtime that the file uses. Evaluating any other
  identifier raises a ReferenceError.
\<close>

definition boats_module_scope :: "string list" where
  "boats_module_scope =
     [''Boat'', ''datastore'', ''express'', ''router'', ''h'', ''m'', ''validate'',
      ''require'', ''module'', ''Promise'', ''undefined'']"

definition resolve :: "string list \<Rightarrow> string \<Rightarrow> js_error + string" where
  "resolve scope x = (if x \<in> set scope then Inr x else Inl (ReferenceError x))"

subsection \<open>PUT /:boat\_id/loads/:load\_id (assign)\<close>

text \<open>The branch that stores the assignment: the Boat is written, then the Load.\<close>

definition assign_persist :: "key \<Rightarrow> key \<Rightarrow> boat \<Rightarrow> load \<Rightarrow> datastore \<Rightarrow> outcome \<times> datastore" where
  "assign_persist boatKey loadKey boatResult loadResult s =
     (let loads' = boat_loads boatResult @ [loadKey];
          boat = \<lparr>boat_name = boat_name boatResult, boat_type = boat_type boatResult,
                  boat_length = boat_length boatResult, boat_owner = JUndefined,
                  boat_isPublic = JUndefined, boat_loads = loads'\<rparr>;
          s1 = update_boat boatKey boat s;
          load = \<lparr>load_volume = load_volume loadResult, load_carrier = Some boatKey,
                  load_content = load_content loadResult,
                  load_creation_date = load_creation_date loadResult\<rparr>;
          s2 = update_load loadKey load s1
      in (Responded 204 NoBody, s2))"

definition assign_handler :: "request \<Rightarrow> datastore \<Rightarrow> outcome \<times> datastore" where
  "assign_handler req s =
     (if authenticated req then
        (let boatKey = datastore_key ''Boat'' (boat_id req);
             loadKey = datastore_key ''Load'' (load_id req)
         in case (get_boat s boatKey, get_load s loadKey) of
              (None, None) \<Rightarrow>
                (Responded 404 (ErrorBody ''The specified boat and load does not exist''), s)
            | (None, Some loadResult) \<Rightarrow>
                (Responded 404 (ErrorBody ''The specified boat does not exist''), s)
            | (Some boatResult, None) \<Rightarrow>
                (Responded 404 (ErrorBody ''The specified load does not exist''), s)
            | (Some boatResult, Some loadResult) \<Rightarrow>
                (case load_carrier loadResult of
                   Some carrier \<Rightarrow>
                     (if key_id carrier = key_id boatKey then
                        (Responded 403 (ErrorBody
                           ''The specified load has already been assigned to this boat.''), s)
                      else
                        (Responded 403 (ErrorBody
                           ''The specified load has already been assigned to another boat.''), s))
                 | None \<Rightarrow> assign_persist boatKey loadKey boatResult loadResult s))
      else (NoResponse, s))"

subsection \<open>DELETE /:boat\_id/loads/:load\_id (unassign)\<close>

text \<open>
  Modelled from the spec: \<^verbatim>\<open>keysAreEqual\<close>, which the sources do not contain; it
  compares two keys by identifier.
\<close>

definition keysAreEqual :: "key \<Rightarrow> key \<Rightarrow> bool" where
  "keysAreEqual a b = (key_id a = key_id b)"

definition unassign_persist :: "key \<Rightarrow> key \<Rightarrow> boat \<Rightarrow> load \<Rightarrow> datastore \<Rightarrow> outcome \<times> datastore" where
  "unassign_persist boatKey loadKey boatResult loadResult s =
     (let loads' = filter (\<lambda>element. key_id element \<noteq> key_id loadKey) (boat_loads boatResult);
          boat = \<lparr>boat_name = boat_name boatResult, boat_type = boat_type boatResult,
                  boat_length = boat_length boatResult, boat_owner = JUndefined,
                  boat_isPublic = JUndefined, boat_loads = loads'\<rparr>;
          s1 = update_boat boatKey boat s;
          load = \<lparr>load_volume = load_volume loadResult, load_carrier = None,
                  load_content = load_content loadResult,
                  load_creation_date = load_creation_date loadResult\<rparr>;
          s2 = update_load loadKey load s1
      in (Responded 204 NoBody, s2))"

text \<open>
  The handler calls \<^verbatim>\<open>keysAreEqual\<close> by its bare name, so the name is looked up in the
  scope of the module; the lookup happens only when the carrier is not null
  (\<^verbatim>\<open>||\<close> short-circuits).
\<close>

definition unassign_handler_in :: "string list \<Rightarrow> request \<Rightarrow> datastore \<Rightarrow> outcome \<times> datastore" where
  "unassign_handler_in scope req s =
     (if authenticated req then
        (let boatKey = datastore_key ''Boat'' (boat_id req);
             loadKey = datastore_key ''Load'' (load_id req)
         in case (get_boat s boatKey, get_load s loadKey) of
              (None, None) \<Rightarrow>
                (Responded 404 (ErrorBody ''The specified boat and load does not exist''), s)
            | (None, Some loadResult) \<Rightarrow>
                (Responded 404 (ErrorBody ''The specified boat does not exist''), s)
            | (Some boatResult, None) \<Rightarrow>
                (Responded 404 (ErrorBody ''The specified load does not exist''), s)
            | (Some boatResult, Some loadResult) \<Rightarrow>
                (case load_carrier loadResult of
                   None \<Rightarrow>
                     (Responded 403 (ErrorBody ''The specified load is not on this boat.''), s)
                 | Some carrier \<Rightarrow>
                     (case resolve scope ''keysAreEqual'' of
                        Inl e \<Rightarrow> (Thrown e, s)
                      | Inr f \<Rightarrow>
                          (if \<not> keysAreEqual carrier boatKey then
                             (Responded 403 (ErrorBody
                                ''The specified load is not on this boat.''), s)
                           else unassign_persist boatKey loadKey boatResult loadResult s))))
      else (NoResponse, s))"

definition unassign_handler :: "request \<Rightarrow> datastore \<Rightarrow> outcome \<times> datastore" where
  "unassign_handler = unassign_handler_in boats_module_scope"

subsection \<open>GET /:boat\_id (single-boat fetch)\<close>

definition load_self :: "request \<Rightarrow> key \<Rightarrow> string" where
  "load_self req k = protocol req @ ''://'' @ host req @ ''/loads/'' @ key_id k"

definition boat_self :: "request \<Rightarrow> key \<Rightarrow> string" where
  "boat_self req k = protocol req @ ''://'' @ host req @ baseUrl req @ ''/'' @ key_id k"

text \<open>
  The \<^verbatim>\<open>Promise.all\<close> over the stored load keys: each key is fetched and the key of
  the record found is read; when the fetch finds nothing, reading a property of
  \<^verbatim>\<open>undefined\<close> raises a TypeError and the whole \<^verbatim>\<open>Promise.all\<close> rejects with it.
\<close>

fun hydrate_loads :: "request \<Rightarrow> datastore \<Rightarrow> key list \<Rightarrow> js_error + load_json list" where
  "hydrate_loads req s [] = Inr []"
| "hydrate_loads req s (ld # lds) =
     (case get_entity_key s ld of
        None \<Rightarrow> Inl (TypeError ''Cannot read properties of undefined'')
      | Some k \<Rightarrow>
          (case hydrate_loads req s lds of
             Inl e \<Rightarrow> Inl e
           | Inr rest \<Rightarrow> Inr (\<lparr>lj_id = key_id k, lj_self = load_self req k\<rparr> # rest)))"

definition get_boat_handler :: "request \<Rightarrow> datastore \<Rightarrow> outcome" where
  "get_boat_handler req s =
     (if boat_id req = [] then
        Responded 404 (ErrorBody ''No boat with this boat_id exists'')
      else
        (let boatKey = datastore_key ''Boat'' (boat_id req)
         in case get_boat s boatKey of
              None \<Rightarrow> Responded 404 (ErrorBody ''No boat with this boat_id exists'')
            | Some boatResult \<Rightarrow>
                (case hydrate_loads req s (boat_loads boatResult) of
                   Inl e \<Rightarrow> Thrown e
                 | Inr lds \<Rightarrow>
                     Responded 200 (BoatBody
                       \<lparr>bj_id = key_id boatKey, bj_name = boat_name boatResult,
                        bj_type = boat_type boatResult, bj_length = boat_length boatResult,
                        bj_loads = lds, bj_self = boat_self req boatKey\<rparr>))))"

subsection \<open>DELETE /:boat\_id\<close>

text \<open>
  Modelled from the spec: \<^verbatim>\<open>h.getBoatFromID\<close> and \<^verbatim>\<open>h.createBoatKey\<close> of
  \<^verbatim>\<open>helper.js\<close>, which is not among the sources: the first is the point read of the
  Boat with that identifier, the second builds its key.
\<close>

definition createBoatKey :: "string \<Rightarrow> key" where
  "createBoatKey i = datastore_key ''Boat'' i"

definition getBoatFromID :: "datastore \<Rightarrow> string \<Rightarrow> boat option" where
  "getBoatFromID s i = get_boat s (createBoatKey i)"

definition delete_boat_handler :: "request \<Rightarrow> datastore \<Rightarrow> outcome \<times> datastore" where
  "delete_boat_handler req s =
     (if authenticated req then
        (let boatResult = getBoatFromID s (boat_id req);
             boatKey = createBoatKey (boat_id req)
         in case boatResult of
              None \<Rightarrow> (Responded 403 (ErrorBody ''No boat with this boat_id exists''), s)
            | Some b \<Rightarrow>
                (if boat_owner b \<noteq> JStr (sub req) then
                   (Responded 403 (ErrorBody
                      ''This boat_id exists but you are not the owner.''), s)
                 else (Responded 204 NoBody, delete_boat boatKey s)))
      else
        (Responded 401 (ErrorBody ''You must be authenticated to perform this action.''), s))"

subsection \<open>PATCH /:boat\_id and PUT /:boat\_id\<close>

text \<open>
  Both handlers begin with \<^verbatim>\<open>helper.requestIsValid(req, res)\<close>, so their first step
  is the lookup of the name \<^verbatim>\<open>helper\<close>. What follows uses \<^verbatim>\<open>helper.js\<close> and
  \<^verbatim>\<open>boat_class.js\<close>, which are not among the sources, and is the parameter \<open>rest\<close>.
\<close>

definition patch_boat_handler_in ::
  "string list \<Rightarrow> (request \<Rightarrow> datastore \<Rightarrow> outcome \<times> datastore) \<Rightarrow> request \<Rightarrow> datastore
     \<Rightarrow> outcome \<times> datastore" where
  "patch_boat_handler_in scope rest req s =
     (case resolve scope ''helper'' of
        Inl e \<Rightarrow> (Thrown e, s)
      | Inr hp \<Rightarrow> rest req s)"

definition put_boat_handler_in ::
  "string list \<Rightarrow> (request \<Rightarrow> datastore \<Rightarrow> outcome \<times> datastore) \<Rightarrow> request \<Rightarrow> datastore
     \<Rightarrow> outcome \<times> datastore" where
  "put_boat_handler_in scope rest req s =
     (case resolve scope ''helper'' of
        Inl e \<Rightarrow> (Thrown e, s)
      | Inr hp \<Rightarrow> rest req s)"

definition patch_boat_handler ::
  "(request \<Rightarrow> datastore \<Rightarrow> outcome \<times> datastore) \<Rightarrow> request \<Rightarrow> datastore \<Rightarrow> outcome \<times> datastore" where
  "patch_boat_handler = patch_boat_handler_in boats_module_scope"

definition put_boat_handler ::
  "(request \<Rightarrow> datastore \<Rightarrow> outcome \<times> datastore) \<Rightarrow> request \<Rightarrow> datastore \<Rightarrow> outcome \<times> datastore" where
  "put_boat_handler = put_boat_handler_in boats_module_scope"

subsection \<open>The two-sided relationship\<close>

text \<open>
  \<open>carrier_side\<close>: every Load with a carrier is listed in the loads of that Boat.
  \<open>loads_side\<close>: every key in a Boat's loads is a Load whose carrier is that Boat.
\<close>

definition carrier_side :: "datastore \<Rightarrow> bool" where
  "carrier_side s =
     (\<forall>lid l c. load_tbl s lid = Some l \<and> load_carrier l = Some c \<longrightarrow>
        (\<exists>b. get_boat s c = Some b \<and> datastore_key ''Load'' lid \<in> set (boat_loads b)))"

definition loads_side :: "datastore \<Rightarrow> bool" where
  "loads_side s =
     (\<forall>bid b k. boat_tbl s bid = Some b \<and> k \<in> set (boat_loads b) \<longrightarrow>
        (\<exists>l. get_load s k = Some l \<and> load_carrier l = Some (datastore_key ''Boat'' bid)))"

definition assignment_invariant :: "datastore \<Rightarrow> bool" where
  "assignment_invariant s = (carrier_side s \<and> loads_side s)"

text \<open>
  The assign and unassign handlers store a Boat with its name, type, length and loads and
  nothing else, so a Boat that they have written has no owner property.
  \<open>loaded_boats_ownerless\<close>: every Boat that lists a load has no owner property.
\<close>

definition loaded_boats_ownerless :: "datastore \<Rightarrow> bool" where
  "loaded_boats_ownerless s =
     (\<forall>bid b. boat_tbl s bid = Some b \<and> boat_loads b \<noteq> [] \<longrightarrow> boat_owner b = JUndefined)"

text \<open>A datastore in which nothing is assigned: the records as they are created.\<close>

definition no_assignments :: "datastore \<Rightarrow> bool" where
  "no_assignments s =
     ((\<forall>bid b. boat_tbl s bid = Some b \<longrightarrow> boat_loads b = [])
      \<and> (\<forall>lid l. load_tbl s lid = Some l \<longrightarrow> load_carrier l = None))"

text \<open>
  Requests to the handlers that write, handled one after the other; \<open>rest\<close> is the
  remainder of the PATCH and PUT handlers, as above.
\<close>

datatype call =
  PutLoad request | DeleteLoad request | DeleteBoat request | PatchBoat request | PutBoat request

fun run_call ::
  "(request \<Rightarrow> datastore \<Rightarrow> outcome \<times> datastore) \<Rightarrow> call \<Rightarrow> datastore \<Rightarrow> datastore" where
  "run_call rest (PutLoad r) s = snd (assign_handler r s)"
| "run_call rest (DeleteLoad r) s = snd (unassign_handler r s)"
| "run_call rest (DeleteBoat r) s = snd (delete_boat_handler r s)"
| "run_call rest (PatchBoat r) s = snd (patch_boat_handler rest r s)"
| "run_call rest (PutBoat r) s = snd (put_boat_handler rest r s)"

fun run_calls ::
  "(request \<Rightarrow> datastore \<Rightarrow> outcome \<times> datastore) \<Rightarrow> call list \<Rightarrow> datastore \<Rightarrow> datastore" where
  "run_calls rest [] s = s"
| "run_calls rest (c # cs) s = run_calls rest cs (run_call rest c s)"

subsection \<open>A concrete datastore\<close>

text \<open>
  Boat 1 (Orca) and Boat 2 with no loads, owned by \<open>u1\<close>, and the unassigned Load 9.
\<close>

definition orca :: boat where
  "orca = \<lparr>boat_name = JStr ''Orca'', boat_type = JStr ''Sloop'', boat_length = JNum 30,
           boat_owner = JStr ''u1'', boat_isPublic = JBool True, boat_loads = []\<rparr>"

definition heron :: boat where
  "heron = \<lparr>boat_name = JStr ''Heron'', boat_type = JStr ''Yawl'', boat_length = JNum 40,
            boat_owner = JStr ''u1'', boat_isPublic = JBool False, boat_loads = []\<rparr>"

definition crate :: load where
  "crate = \<lparr>load_volume = JNum 5, load_carrier = None, load_content = JStr ''Tea'',
            load_creation_date = JStr ''05/24/2021''\<rparr>"

definition store0 :: datastore where
  "store0 = \<lparr>boat_tbl = [''1'' \<mapsto> orca, ''2'' \<mapsto> heron], load_tbl = [''9'' \<mapsto> crate],
             ds_log = []\<rparr>"

definition req_for :: "bool \<Rightarrow> string \<Rightarrow> string \<Rightarrow> request" where
  "req_for a b l = \<lparr>authenticated = a, sub = ''u1'', boat_id = b, load_id = l,
                    protocol = ''https'', host = ''api.example'', baseUrl = ''/boats''\<rparr>"

text \<open>The same datastore with Load 9 on Boat 1, both sides recorded.\<close>

definition orca_loaded :: boat where
  "orca_loaded = orca\<lparr>boat_loads := [datastore_key ''Load'' ''9'']\<rparr>"

definition crate_on_orca :: load where
  "crate_on_orca = crate\<lparr>load_carrier := Some (datastore_key ''Boat'' ''1'')\<rparr>"

definition store_loaded :: datastore where
  "store_loaded = \<lparr>boat_tbl = [''1'' \<mapsto> orca_loaded, ''2'' \<mapsto> heron],
                   load_tbl = [''9'' \<mapsto> crate_on_orca], ds_log = []\<rparr>"

text \<open>Boat 1 lists Load 9, whose record is gone.\<close>

definition store_dangling :: datastore where
  "store_dangling = \<lparr>boat_tbl = [''1'' \<mapsto> orca_loaded, ''2'' \<mapsto> heron],
                     load_tbl = Map.empty, ds_log = []\<rparr>"

text \<open>Load 9 is on Boat 2, both sides recorded.\<close>

definition heron_loaded :: boat where
  "heron_loaded = heron\<lparr>boat_loads := [datastore_key ''Load'' ''9'']\<rparr>"

definition crate_on_heron :: load where
  "crate_on_heron = crate\<lparr>load_carrier := Some (datastore_key ''Boat'' ''2'')\<rparr>"

definition store_other :: datastore where
  "store_other = \<lparr>boat_tbl = [''1'' \<mapsto> orca, ''2'' \<mapsto> heron_loaded],
                  load_tbl = [''9'' \<mapsto> crate_on_heron], ds_log = []\<rparr>"

section \<open>Properties\<close>

lemma assign_handler_success:
  assumes "authenticated req"
    and "boat_tbl s (boat_id req) = Some b"
    and "load_tbl s (load_id req) = Some l"
    and "load_carrier l = None"
  shows "assign_handler req s =
           assign_persist (datastore_key ''Boat'' (boat_id req))
             (datastore_key ''Load'' (load_id req)) b l s"
  using assms by (simp add: assign_handler_def get_boat_def get_load_def datastore_key_def)

text \<open>
  C1. When the Boat and the Load exist and the Load's carrier is null, an authenticated
  assign answers 204, and afterwards the stored Load's carrier is the Boat's key and the
  stored Boat's loads contain the Load's key.
\<close>

theorem assign_links_both_sides:
  assumes "authenticated req"
    and "boat_tbl s (boat_id req) = Some b"
    and "load_tbl s (load_id req) = Some l"
    and "load_carrier l = None"
  shows "\<exists>s' b' l'. assign_handler req s = (Responded 204 NoBody, s')
           \<and> get_boat s' (datastore_key ''Boat'' (boat_id req)) = Some b'
           \<and> get_load s' (datastore_key ''Load'' (load_id req)) = Some l'
           \<and> load_carrier l' = Some (datastore_key ''Boat'' (boat_id req))
           \<and> datastore_key ''Load'' (load_id req) \<in> set (boat_loads b')"
  using assms
  by (simp add: assign_handler_success assign_persist_def Let_def update_boat_def
      update_load_def get_boat_def get_load_def datastore_key_def)

theorem assign_links_both_sides_witness:
  "\<exists>s' b' l'. assign_handler (req_for True ''1'' ''9'') store0 = (Responded 204 NoBody, s')
     \<and> get_boat s' (datastore_key ''Boat'' ''1'') = Some b'
     \<and> get_load s' (datastore_key ''Load'' ''9'') = Some l'
     \<and> load_carrier l' = Some (datastore_key ''Boat'' ''1'')
     \<and> datastore_key ''Load'' ''9'' \<in> set (boat_loads b')"
  using assign_links_both_sides [of "req_for True ''1'' ''9''" store0 orca crate]
  by (simp add: req_for_def store0_def crate_def)


subsection \<open>Assign is rejected for a Load that has a carrier\<close>

lemma assign_handler_carrier:
  assumes "authenticated req"
    and "boat_tbl s (boat_id req) = Some b"
    and "load_tbl s (load_id req) = Some l"
    and "load_carrier l = Some c"
  shows "assign_handler req s =
           (Responded 403 (ErrorBody
              (if key_id c = boat_id req
               then ''The specified load has already been assigned to this boat.''
               else ''The specified load has already been assigned to another boat.'')), s)"
  using assms by (simp add: assign_handler_def get_boat_def get_load_def datastore_key_def)

text \<open>
  C3. For an authenticated assign where both records exist: when the Load's carrier is
  not null the answer is the 403 conflict, saying "already assigned to this boat" when
  the carrier's identifier is the Boat's and "already assigned to another boat"
  otherwise, and nothing is stored; and when the carrier is null, so that the assign
  succeeds, the same assign repeated on the resulting datastore is the 403 conflict
  "already assigned to this boat".
\<close>

theorem assign_not_idempotent:
  assumes "authenticated req"
    and "boat_tbl s (boat_id req) = Some b"
    and "load_tbl s (load_id req) = Some l"
  shows "(\<forall>c. load_carrier l = Some c \<longrightarrow>
            assign_handler req s =
              (Responded 403 (ErrorBody
                 (if key_id c = boat_id req
                  then ''The specified load has already been assigned to this boat.''
                  else ''The specified load has already been assigned to another boat.'')), s))
       \<and> (load_carrier l = None \<longrightarrow>
            fst (assign_handler req s) = Responded 204 NoBody
          \<and> assign_handler req (snd (assign_handler req s)) =
              (Responded 403 (ErrorBody
                 ''The specified load has already been assigned to this boat.''),
               snd (assign_handler req s)))"
proof (intro conjI allI impI)
  fix c assume "load_carrier l = Some c"
  with assms show "assign_handler req s =
      (Responded 403 (ErrorBody
         (if key_id c = boat_id req
          then ''The specified load has already been assigned to this boat.''
          else ''The specified load has already been assigned to another boat.'')), s)"
    by (rule assign_handler_carrier)
next
  assume none: "load_carrier l = None"
  let ?bk = "datastore_key ''Boat'' (boat_id req)"
  let ?lk = "datastore_key ''Load'' (load_id req)"
  have first: "assign_handler req s = assign_persist ?bk ?lk b l s"
    using assms none by (rule assign_handler_success)
  show "fst (assign_handler req s) = Responded 204 NoBody"
    by (simp add: first assign_persist_def Let_def)
  let ?s' = "snd (assign_handler req s)"
  obtain b' where b': "boat_tbl ?s' (boat_id req) = Some b'"
    by (simp add: first assign_persist_def Let_def update_boat_def update_load_def
        datastore_key_def)
  have l': "load_tbl ?s' (load_id req) =
      Some \<lparr>load_volume = load_volume l, load_carrier = Some ?bk,
            load_content = load_content l, load_creation_date = load_creation_date l\<rparr>"
    by (simp add: first assign_persist_def Let_def update_boat_def update_load_def
        datastore_key_def)
  show "assign_handler req ?s' =
      (Responded 403 (ErrorBody
         ''The specified load has already been assigned to this boat.''), ?s')"
    using assign_handler_carrier [OF assms(1) b' l', of ?bk]
    by (simp add: datastore_key_def)
qed

text \<open>
  The witness takes the theorem at the datastore where Load 9 is already on Boat 1,
  asked for Boat 1 and for Boat 2, and at the datastore where it is unassigned.
\<close>

theorem assign_not_idempotent_witness:
  "assign_handler (req_for True ''1'' ''9'') store_loaded =
     (Responded 403 (ErrorBody ''The specified load has already been assigned to this boat.''),
      store_loaded)
   \<and> assign_handler (req_for True ''2'' ''9'') store_loaded =
     (Responded 403 (ErrorBody ''The specified load has already been assigned to another boat.''),
      store_loaded)
   \<and> fst (assign_handler (req_for True ''1'' ''9'') store0) = Responded 204 NoBody
   \<and> fst (assign_handler (req_for True ''1'' ''9'')
            (snd (assign_handler (req_for True ''1'' ''9'') store0))) =
     Responded 403 (ErrorBody ''The specified load has already been assigned to this boat.'')"
  using assign_not_idempotent [of "req_for True ''1'' ''9''" store_loaded orca_loaded crate_on_orca]
    assign_not_idempotent [of "req_for True ''2'' ''9''" store_loaded heron crate_on_orca]
    assign_not_idempotent [of "req_for True ''1'' ''9''" store0 orca crate]
  by (simp add: req_for_def store0_def store_loaded_def crate_def crate_on_orca_def
      datastore_key_def)


subsection \<open>Unauthenticated callers\<close>

lemma assign_handler_unauthenticated:
  "\<not> authenticated req \<Longrightarrow> assign_handler req s = (NoResponse, s)"
  by (simp add: assign_handler_def)

lemma unassign_handler_unauthenticated:
  "\<not> authenticated req \<Longrightarrow> unassign_handler_in scope req s = (NoResponse, s)"
  by (simp add: unassign_handler_in_def)

text \<open>
  C4. The boat DELETE answers an unauthenticated caller with 401 and a reason; the assign
  and unassign handlers have no such branch. For an unauthenticated caller both return
  without sending any response, and the datastore is unchanged.
\<close>

theorem unauthenticated_assign_sends_nothing:
  "assign_handler (req_for False ''1'' ''9'') store0 = (NoResponse, store0)
   \<and> unassign_handler (req_for False ''1'' ''9'') store_loaded = (NoResponse, store_loaded)
   \<and> fst (delete_boat_handler (req_for False ''1'' ''9'') store0) =
       Responded 401 (ErrorBody ''You must be authenticated to perform this action.'')"
  by (simp add: assign_handler_def unassign_handler_def unassign_handler_in_def
      delete_boat_handler_def req_for_def)

subsection \<open>Unassign\<close>

lemma keysAreEqual_unbound:
  "resolve boats_module_scope ''keysAreEqual'' = Inl (ReferenceError ''keysAreEqual'')"
  by (simp add: resolve_def boats_module_scope_def)

lemma unassign_handler_null_carrier:
  assumes "authenticated req"
    and "boat_tbl s (boat_id req) = Some b"
    and "load_tbl s (load_id req) = Some l"
    and "load_carrier l = None"
  shows "unassign_handler_in scope req s =
           (Responded 403 (ErrorBody ''The specified load is not on this boat.''), s)"
  using assms
  by (simp add: unassign_handler_in_def get_boat_def get_load_def datastore_key_def)

lemma unassign_handler_carrier_throws:
  assumes "authenticated req"
    and "boat_tbl s (boat_id req) = Some b"
    and "load_tbl s (load_id req) = Some l"
    and "load_carrier l = Some c"
  shows "unassign_handler req s = (Thrown (ReferenceError ''keysAreEqual''), s)"
  using assms
  by (simp add: unassign_handler_def unassign_handler_in_def get_boat_def get_load_def
      datastore_key_def keysAreEqual_unbound)

text \<open>
  Had the name \<^verbatim>\<open>keysAreEqual\<close> been in scope, a carrier with another identifier
  would give the 403 conflict and leave the datastore as it is.
\<close>

lemma unassign_handler_other_carrier_if_bound:
  assumes "authenticated req"
    and "boat_tbl s (boat_id req) = Some b"
    and "load_tbl s (load_id req) = Some l"
    and "load_carrier l = Some c"
    and "key_id c \<noteq> boat_id req"
    and "''keysAreEqual'' \<in> set scope"
  shows "unassign_handler_in scope req s =
           (Responded 403 (ErrorBody ''The specified load is not on this boat.''), s)"
  using assms
  by (simp add: unassign_handler_in_def get_boat_def get_load_def datastore_key_def
      resolve_def keysAreEqual_def)

text \<open>
  Likewise the round trip: with the name in scope, assigning Load 9 to Boat 1, removing
  it and assigning it to Boat 2 each answer 204.
\<close>

lemma round_trip_if_bound:
  "fst (assign_handler (req_for True ''1'' ''9'') store0) = Responded 204 NoBody
   \<and> fst (unassign_handler_in (''keysAreEqual'' # boats_module_scope) (req_for True ''1'' ''9'')
        (snd (assign_handler (req_for True ''1'' ''9'') store0))) = Responded 204 NoBody
   \<and> fst (assign_handler (req_for True ''2'' ''9'')
        (snd (unassign_handler_in (''keysAreEqual'' # boats_module_scope)
           (req_for True ''1'' ''9'')
           (snd (assign_handler (req_for True ''1'' ''9'') store0))))) = Responded 204 NoBody"
  by (simp add: assign_handler_def assign_persist_def unassign_handler_in_def
      unassign_persist_def get_boat_def get_load_def update_boat_def update_load_def
      datastore_key_def resolve_def keysAreEqual_def req_for_def store0_def crate_def Let_def)

text \<open>
  C5. Load 9 is on Boat 2 and an authenticated caller asks to remove it from Boat 1.
  The carrier is not null, so the handler evaluates \<^verbatim>\<open>keysAreEqual\<close>, a name that
  \<^verbatim>\<open>boats.js\<close> does not bind: a ReferenceError is thrown and no response is sent.
  The datastore is unchanged. (With a null carrier the answer is the 403 conflict.)
\<close>

theorem unassign_from_other_boat_throws:
  "unassign_handler (req_for True ''1'' ''9'') store_other =
     (Thrown (ReferenceError ''keysAreEqual''), store_other)
   \<and> unassign_handler (req_for True ''1'' ''9'') store0 =
     (Responded 403 (ErrorBody ''The specified load is not on this boat.''), store0)"
  by (simp add: unassign_handler_def unassign_handler_in_def get_boat_def get_load_def
      datastore_key_def keysAreEqual_unbound req_for_def store_other_def store0_def
      crate_def crate_on_heron_def)

text \<open>
  C6. From the datastore with Load 9 unassigned: assigning it to Boat 1 answers 204;
  removing it from Boat 1 then throws the ReferenceError and stores nothing, so the Load
  stays on Boat 1; and assigning it to Boat 2 is the 403 conflict "already assigned to
  another boat".
\<close>

theorem assign_unassign_assign_trace:
  "fst (assign_handler (req_for True ''1'' ''9'') store0) = Responded 204 NoBody
   \<and> unassign_handler (req_for True ''1'' ''9'')
        (snd (assign_handler (req_for True ''1'' ''9'') store0)) =
      (Thrown (ReferenceError ''keysAreEqual''),
       snd (assign_handler (req_for True ''1'' ''9'') store0))
   \<and> fst (assign_handler (req_for True ''2'' ''9'')
        (snd (assign_handler (req_for True ''1'' ''9'') store0))) =
      Responded 403 (ErrorBody ''The specified load has already been assigned to another boat.'')"
  by (simp add: assign_handler_def assign_persist_def unassign_handler_def
      unassign_handler_in_def get_boat_def get_load_def update_boat_def update_load_def
      datastore_key_def keysAreEqual_unbound req_for_def store0_def crate_def Let_def)

subsection \<open>Order of the two writes\<close>

lemma assign_handler_log:
  "ds_log (snd (assign_handler req s)) = ds_log s
   \<or> ds_log (snd (assign_handler req s)) =
       ds_log s @ [DsUpdate (datastore_key ''Boat'' (boat_id req)),
                   DsUpdate (datastore_key ''Load'' (load_id req))]"
  by (simp add: assign_handler_def assign_persist_def update_boat_def update_load_def Let_def
      split: option.splits)

lemma unassign_handler_in_log:
  "ds_log (snd (unassign_handler_in scope req s)) = ds_log s
   \<or> ds_log (snd (unassign_handler_in scope req s)) =
       ds_log s @ [DsUpdate (datastore_key ''Boat'' (boat_id req)),
                   DsUpdate (datastore_key ''Load'' (load_id req))]"
  by (simp add: unassign_handler_in_def unassign_persist_def update_boat_def update_load_def
      Let_def split: option.splits sum.splits)

text \<open>
  C7. The storing branch of assign and the storing branch of unassign each add exactly
  two writes to the log, the update under the Boat's key first and the update under the
  Load's key second; and whatever the request, a handler either writes nothing or writes
  these two in this order.
\<close>

theorem boat_written_before_load:
  "ds_log (snd (assign_persist boatKey loadKey boatResult loadResult s)) =
     ds_log s @ [DsUpdate boatKey, DsUpdate loadKey]
   \<and> ds_log (snd (unassign_persist boatKey loadKey boatResult loadResult s)) =
     ds_log s @ [DsUpdate boatKey, DsUpdate loadKey]
   \<and> (ds_log (snd (assign_handler req s)) = ds_log s
      \<or> ds_log (snd (assign_handler req s)) =
          ds_log s @ [DsUpdate (datastore_key ''Boat'' (boat_id req)),
                      DsUpdate (datastore_key ''Load'' (load_id req))])
   \<and> (ds_log (snd (unassign_handler_in scope req s)) = ds_log s
      \<or> ds_log (snd (unassign_handler_in scope req s)) =
          ds_log s @ [DsUpdate (datastore_key ''Boat'' (boat_id req)),
                      DsUpdate (datastore_key ''Load'' (load_id req))])"
proof (intro conjI)
  show "ds_log (snd (assign_persist boatKey loadKey boatResult loadResult s)) =
      ds_log s @ [DsUpdate boatKey, DsUpdate loadKey]"
    by (simp add: assign_persist_def update_boat_def update_load_def Let_def)
  show "ds_log (snd (unassign_persist boatKey loadKey boatResult loadResult s)) =
      ds_log s @ [DsUpdate boatKey, DsUpdate loadKey]"
    by (simp add: unassign_persist_def update_boat_def update_load_def Let_def)
  show "ds_log (snd (assign_handler req s)) = ds_log s
      \<or> ds_log (snd (assign_handler req s)) =
          ds_log s @ [DsUpdate (datastore_key ''Boat'' (boat_id req)),
                      DsUpdate (datastore_key ''Load'' (load_id req))]"
    by (rule assign_handler_log)
  show "ds_log (snd (unassign_handler_in scope req s)) = ds_log s
      \<or> ds_log (snd (unassign_handler_in scope req s)) =
          ds_log s @ [DsUpdate (datastore_key ''Boat'' (boat_id req)),
                      DsUpdate (datastore_key ''Load'' (load_id req))]"
    by (rule unassign_handler_in_log)
qed

theorem boat_written_before_load_witness:
  "ds_log (snd (assign_handler (req_for True ''1'' ''9'') store0)) =
     [DsUpdate (datastore_key ''Boat'' ''1''), DsUpdate (datastore_key ''Load'' ''9'')]
   \<and> ds_log (snd (unassign_persist (datastore_key ''Boat'' ''1'') (datastore_key ''Load'' ''9'')
        orca_loaded crate_on_orca store_loaded)) =
     [DsUpdate (datastore_key ''Boat'' ''1''), DsUpdate (datastore_key ''Load'' ''9'')]"
  using boat_written_before_load [of "datastore_key ''Boat'' ''1''" "datastore_key ''Load'' ''9''"
      orca crate store0 "req_for True ''1'' ''9''" boats_module_scope]
    boat_written_before_load [of "datastore_key ''Boat'' ''1''" "datastore_key ''Load'' ''9''"
      orca_loaded crate_on_orca store_loaded "req_for True ''1'' ''9''" boats_module_scope]
    assign_handler_success [of "req_for True ''1'' ''9''" store0 orca crate]
  by (simp add: req_for_def store0_def store_loaded_def crate_def)


subsection \<open>PATCH and PUT of a boat\<close>

text \<open>
  C9. The helpers module is bound to the name \<^verbatim>\<open>h\<close>; the name \<^verbatim>\<open>helper\<close> is
  not bound. Whatever the request, the datastore and the rest of the handler, the PATCH
  and the PUT of a boat throw a ReferenceError at their first step and leave the
  datastore as it was.
\<close>

theorem boat_update_handlers_throw:
  "resolve boats_module_scope ''h'' = Inr ''h''
   \<and> patch_boat_handler rest req s = (Thrown (ReferenceError ''helper''), s)
   \<and> put_boat_handler rest' req s = (Thrown (ReferenceError ''helper''), s)"
  by (simp add: patch_boat_handler_def patch_boat_handler_in_def put_boat_handler_def
      put_boat_handler_in_def resolve_def boats_module_scope_def)

theorem boat_update_handlers_throw_witness:
  "patch_boat_handler (\<lambda>r t. (Responded 200 NoBody, update_boat (createBoatKey ''1'') heron t))
     (req_for True ''1'' []) store0 = (Thrown (ReferenceError ''helper''), store0)
   \<and> put_boat_handler (\<lambda>r t. (Responded 303 NoBody, update_boat (createBoatKey ''1'') heron t))
     (req_for True ''1'' []) store0 = (Thrown (ReferenceError ''helper''), store0)"
  using boat_update_handlers_throw
    [of "\<lambda>r t. (Responded 200 NoBody, update_boat (createBoatKey ''1'') heron t)"
      "req_for True ''1'' []" store0
      "\<lambda>r t. (Responded 303 NoBody, update_boat (createBoatKey ''1'') heron t)"]
  by simp

subsection \<open>The single-boat fetch\<close>

lemma hydrate_loads_dangling:
  "k \<in> set ks \<Longrightarrow> get_entity_key s k = None \<Longrightarrow>
     hydrate_loads req s ks = Inl (TypeError ''Cannot read properties of undefined'')"
proof (induction ks)
  case Nil
  then show ?case by simp
next
  case (Cons a ks)
  show ?case
  proof (cases "get_entity_key s a")
    case None
    then show ?thesis by simp
  next
    case (Some k')
    with Cons.prems have "k \<in> set ks" by auto
    with Cons.IH Cons.prems(2) Some show ?thesis by simp
  qed
qed

lemma get_entity_key_Some: "get_entity_key s k = Some k' \<Longrightarrow> k' = k"
  by (simp add: get_entity_key_def split: if_splits)

lemma hydrate_loads_all_found:
  "\<forall>k\<in>set ks. get_entity_key s k \<noteq> None \<Longrightarrow>
     hydrate_loads req s ks = Inr (map (\<lambda>k. \<lparr>lj_id = key_id k, lj_self = load_self req k\<rparr>) ks)"
proof (induction ks)
  case Nil
  then show ?case by simp
next
  case (Cons a ks)
  from Cons.prems obtain k' where k': "get_entity_key s a = Some k'" by auto
  then have "k' = a" by (rule get_entity_key_Some)
  with Cons k' show ?case by simp
qed

lemma hydrate_loads_Inr:
  "hydrate_loads req s ks = Inr lds \<Longrightarrow>
     lds = map (\<lambda>k. \<lparr>lj_id = key_id k, lj_self = load_self req k\<rparr>) ks"
proof (induction ks arbitrary: lds)
  case Nil
  then show ?case by simp
next
  case (Cons a ks)
  then show ?case
    by (auto split: option.splits sum.splits dest: get_entity_key_Some)
qed

lemma get_boat_handler_existing:
  assumes "boat_id req \<noteq> []" and "boat_tbl s (boat_id req) = Some b"
  shows "get_boat_handler req s =
           (case hydrate_loads req s (boat_loads b) of
              Inl e \<Rightarrow> Thrown e
            | Inr lds \<Rightarrow>
                Responded 200 (BoatBody
                  \<lparr>bj_id = boat_id req, bj_name = boat_name b, bj_type = boat_type b,
                   bj_length = boat_length b, bj_loads = lds,
                   bj_self = boat_self req (datastore_key ''Boat'' (boat_id req))\<rparr>))"
  using assms
  by (simp add: get_boat_handler_def get_boat_def datastore_key_def Let_def split: sum.splits)

text \<open>
  C8. For the fetch of an existing Boat: when every key in the Boat's loads is found in
  the datastore, the answer is 200 with the Boat's id, name, type, length and self link
  and, in place of each stored load key and in the same order, the pair of that Load's
  id and its self link; and any response that the fetch of an existing Boat sends is
  this one.
\<close>

theorem fetch_projects_loads:
  assumes "boat_id req \<noteq> []" and "boat_tbl s (boat_id req) = Some b"
  shows "((\<forall>k\<in>set (boat_loads b). get_entity_key s k \<noteq> None) \<longrightarrow>
            get_boat_handler req s =
              Responded 200 (BoatBody
                \<lparr>bj_id = boat_id req, bj_name = boat_name b, bj_type = boat_type b,
                 bj_length = boat_length b,
                 bj_loads = map (\<lambda>k. \<lparr>lj_id = key_id k, lj_self = load_self req k\<rparr>)
                              (boat_loads b),
                 bj_self = boat_self req (datastore_key ''Boat'' (boat_id req))\<rparr>))
       \<and> (\<forall>st bd. get_boat_handler req s = Responded st bd \<longrightarrow>
            st = 200 \<and>
            bd = BoatBody
                \<lparr>bj_id = boat_id req, bj_name = boat_name b, bj_type = boat_type b,
                 bj_length = boat_length b,
                 bj_loads = map (\<lambda>k. \<lparr>lj_id = key_id k, lj_self = load_self req k\<rparr>)
                              (boat_loads b),
                 bj_self = boat_self req (datastore_key ''Boat'' (boat_id req))\<rparr>)"
proof -
  let ?proj = "BoatBody
        \<lparr>bj_id = boat_id req, bj_name = boat_name b, bj_type = boat_type b,
         bj_length = boat_length b,
         bj_loads = map (\<lambda>k. \<lparr>lj_id = key_id k, lj_self = load_self req k\<rparr>) (boat_loads b),
         bj_self = boat_self req (datastore_key ''Boat'' (boat_id req))\<rparr>"
  have found: "get_boat_handler req s = Responded 200 ?proj"
    if "\<forall>k\<in>set (boat_loads b). get_entity_key s k \<noteq> None"
    using that by (simp add: get_boat_handler_existing [OF assms] hydrate_loads_all_found)
  have sent: "st = 200 \<and> bd = ?proj" if r: "get_boat_handler req s = Responded st bd" for st bd
  proof -
    from r obtain lds where h: "hydrate_loads req s (boat_loads b) = Inr lds"
      by (auto simp: get_boat_handler_existing [OF assms] split: sum.splits)
    from h have "lds = map (\<lambda>k. \<lparr>lj_id = key_id k, lj_self = load_self req k\<rparr>) (boat_loads b)"
      by (rule hydrate_loads_Inr)
    with r h show ?thesis
      by (auto simp: get_boat_handler_existing [OF assms])
  qed
  from found sent show ?thesis by blast
qed


text \<open>
  The scenario of the specification: Load 9 is assigned to Boat 1 and Boat 1 is fetched.
\<close>

lemma fetched_after_assign:
  "boat_tbl (snd (assign_handler (req_for True ''1'' ''9'') store0)) ''1'' =
     Some \<lparr>boat_name = JStr ''Orca'', boat_type = JStr ''Sloop'', boat_length = JNum 30,
        boat_owner = JUndefined, boat_isPublic = JUndefined,
        boat_loads = [datastore_key ''Load'' ''9'']\<rparr>
   \<and> get_entity_key (snd (assign_handler (req_for True ''1'' ''9'') store0))
        (datastore_key ''Load'' ''9'') \<noteq> None"
  by (simp add: assign_handler_def assign_persist_def get_boat_def get_load_def get_entity_key_def
      update_boat_def update_load_def datastore_key_def req_for_def
      store0_def orca_def crate_def Let_def)

theorem fetch_projects_loads_witness:
  "get_boat_handler (req_for True ''1'' ''9'')
     (snd (assign_handler (req_for True ''1'' ''9'') store0)) =
   Responded 200 (BoatBody
     \<lparr>bj_id = ''1'', bj_name = JStr ''Orca'', bj_type = JStr ''Sloop'', bj_length = JNum 30,
      bj_loads = [\<lparr>lj_id = ''9'', lj_self = ''https://api.example/loads/9''\<rparr>],
      bj_self = ''https://api.example/boats/1''\<rparr>)"
proof -
  let ?req = "req_for True ''1'' ''9''"
  let ?s = "snd (assign_handler ?req store0)"
  let ?b = "\<lparr>boat_name = JStr ''Orca'', boat_type = JStr ''Sloop'', boat_length = JNum 30,
        boat_owner = JUndefined, boat_isPublic = JUndefined,
        boat_loads = [datastore_key ''Load'' ''9'']\<rparr>"
  have id1: "boat_id ?req = ''1''" by (simp add: req_for_def)
  have p1: "boat_id ?req \<noteq> []" by (simp add: req_for_def)
  have p2: "boat_tbl ?s (boat_id ?req) = Some ?b"
    using fetched_after_assign by (simp only: id1)
  have p3: "\<forall>k\<in>set (boat_loads ?b). get_entity_key ?s k \<noteq> None"
    using fetched_after_assign by simp
  have "get_boat_handler ?req ?s =
      Responded 200 (BoatBody
        \<lparr>bj_id = boat_id ?req, bj_name = boat_name ?b, bj_type = boat_type ?b,
         bj_length = boat_length ?b,
         bj_loads = map (\<lambda>k. \<lparr>lj_id = key_id k, lj_self = load_self ?req k\<rparr>) (boat_loads ?b),
         bj_self = boat_self ?req (datastore_key ''Boat'' (boat_id ?req))\<rparr>)"
    using fetch_projects_loads [OF p1 p2] p3 by blast
  then show ?thesis
    by (simp add: req_for_def load_self_def boat_self_def datastore_key_def)
qed

text \<open>
  C10. When an existing Boat's loads hold the key of a Load whose record is no longer in
  the datastore, the fetch of that Boat throws a TypeError (the lookup gives
  \<^verbatim>\<open>undefined\<close> and its key is read); no response is sent.
\<close>

theorem fetch_throws_on_dangling_load:
  assumes "boat_id req \<noteq> []" and "boat_tbl s (boat_id req) = Some b"
    and "k \<in> set (boat_loads b)" and "key_kind k = ''Load''"
    and "load_tbl s (key_id k) = None"
  shows "get_boat_handler req s = Thrown (TypeError ''Cannot read properties of undefined'')"
proof -
  have "get_entity_key s k = None"
    using assms(4,5) by (simp add: get_entity_key_def get_boat_def get_load_def)
  with assms(3)
  have "hydrate_loads req s (boat_loads b) =
      Inl (TypeError ''Cannot read properties of undefined'')"
    by (rule hydrate_loads_dangling)
  then show ?thesis
    by (simp add: get_boat_handler_existing [OF assms(1,2)])
qed

theorem fetch_throws_on_dangling_load_witness:
  "get_boat_handler (req_for False ''1'' []) store_dangling =
     Thrown (TypeError ''Cannot read properties of undefined'')"
  using fetch_throws_on_dangling_load [of "req_for False ''1'' []" store_dangling orca_loaded
      "datastore_key ''Load'' ''9''"]
  by (simp add: req_for_def store_dangling_def orca_loaded_def datastore_key_def)

subsection \<open>The two-sided relationship under the handlers\<close>

text \<open>What the two halves of the relationship give for a stored Load and a stored Boat.\<close>

lemma carrier_sideD:
  assumes "carrier_side s" and "load_tbl s lid = Some l" and "load_carrier l = Some c"
  shows "key_kind c = ''Boat''"
    and "\<exists>b. boat_tbl s (key_id c) = Some b \<and> datastore_key ''Load'' lid \<in> set (boat_loads b)"
proof -
  from assms obtain b where
    "get_boat s c = Some b" and "datastore_key ''Load'' lid \<in> set (boat_loads b)"
    unfolding carrier_side_def by blast
  then show "key_kind c = ''Boat''"
    and "\<exists>b. boat_tbl s (key_id c) = Some b \<and> datastore_key ''Load'' lid \<in> set (boat_loads b)"
    by (auto simp: get_boat_def split: if_splits)
qed

lemma loads_sideD:
  assumes "loads_side s" and "boat_tbl s bid = Some b" and "k \<in> set (boat_loads b)"
  shows "key_kind k = ''Load''"
    and "\<exists>l. load_tbl s (key_id k) = Some l \<and> load_carrier l = Some (datastore_key ''Boat'' bid)"
proof -
  from assms obtain l where
    "get_load s k = Some l" and "load_carrier l = Some (datastore_key ''Boat'' bid)"
    unfolding loads_side_def by blast
  then show "key_kind k = ''Load''"
    and "\<exists>l. load_tbl s (key_id k) = Some l \<and> load_carrier l = Some (datastore_key ''Boat'' bid)"
    by (auto simp: get_load_def split: if_splits)
qed

lemma assign_persist_tables:
  "boat_tbl (snd (assign_persist bk lk b l s)) =
     (boat_tbl s)(key_id bk \<mapsto> \<lparr>boat_name = boat_name b, boat_type = boat_type b,
        boat_length = boat_length b, boat_owner = JUndefined, boat_isPublic = JUndefined,
        boat_loads = boat_loads b @ [lk]\<rparr>)"
  "load_tbl (snd (assign_persist bk lk b l s)) =
     (load_tbl s)(key_id lk \<mapsto> \<lparr>load_volume = load_volume l, load_carrier = Some bk,
        load_content = load_content l, load_creation_date = load_creation_date l\<rparr>)"
  by (simp_all add: assign_persist_def update_boat_def update_load_def Let_def)

lemma assign_persist_invariant:
  assumes inv: "assignment_invariant s"
    and b: "boat_tbl s bid = Some b"
    and l: "load_tbl s lid = Some l"
    and c: "load_carrier l = None"
  shows "assignment_invariant
           (snd (assign_persist (datastore_key ''Boat'' bid) (datastore_key ''Load'' lid) b l s))"
    (is "assignment_invariant ?s'")
proof -
  let ?bk = "datastore_key ''Boat'' bid" and ?lk = "datastore_key ''Load'' lid"
  let ?b' = "\<lparr>boat_name = boat_name b, boat_type = boat_type b,
        boat_length = boat_length b, boat_owner = JUndefined, boat_isPublic = JUndefined,
        boat_loads = boat_loads b @ [?lk]\<rparr>"
  let ?l' = "\<lparr>load_volume = load_volume l, load_carrier = Some ?bk,
        load_content = load_content l, load_creation_date = load_creation_date l\<rparr>"
  from inv have cs: "carrier_side s" and ls: "loads_side s"
    by (simp_all add: assignment_invariant_def)
  have bt: "boat_tbl ?s' = (boat_tbl s)(bid \<mapsto> ?b')"
    and lt: "load_tbl ?s' = (load_tbl s)(lid \<mapsto> ?l')"
    by (simp_all add: assign_persist_tables datastore_key_def)
  have "carrier_side ?s'"
    unfolding carrier_side_def
  proof (intro allI impI, elim conjE)
    fix lid0 l0 c0
    assume l0: "load_tbl ?s' lid0 = Some l0" and c0: "load_carrier l0 = Some c0"
    show "\<exists>b0. get_boat ?s' c0 = Some b0 \<and> datastore_key ''Load'' lid0 \<in> set (boat_loads b0)"
    proof (cases "lid0 = lid")
      case True
      with l0 c0 lt have "c0 = ?bk" by auto
      then show ?thesis using True bt by (simp add: get_boat_def datastore_key_def)
    next
      case False
      with l0 lt have old: "load_tbl s lid0 = Some l0" by simp
      from carrier_sideD [OF cs old c0] obtain b0 where
        k: "key_kind c0 = ''Boat''" and b0: "boat_tbl s (key_id c0) = Some b0"
        and m: "datastore_key ''Load'' lid0 \<in> set (boat_loads b0)" by blast
      show ?thesis
      proof (cases "key_id c0 = bid")
        case True
        with b0 b have "b0 = b" by simp
        with m True k bt show ?thesis by (simp add: get_boat_def)
      next
        case False
        with b0 m k bt show ?thesis by (simp add: get_boat_def)
      qed
    qed
  qed
  moreover have "loads_side ?s'"
    unfolding loads_side_def
  proof (intro allI impI, elim conjE)
    fix bid0 b0 k
    assume b0: "boat_tbl ?s' bid0 = Some b0" and k: "k \<in> set (boat_loads b0)"
    have keep: "\<exists>l0. get_load ?s' k = Some l0 \<and> load_carrier l0 = Some (datastore_key ''Boat'' bid1)"
      if old: "boat_tbl s bid1 = Some b1" and k1: "k \<in> set (boat_loads b1)" for bid1 b1
    proof -
      from loads_sideD [OF ls old k1] obtain l0 where
        kk: "key_kind k = ''Load''" and l0: "load_tbl s (key_id k) = Some l0"
        and c0: "load_carrier l0 = Some (datastore_key ''Boat'' bid1)" by blast
      from l0 c0 l c have "key_id k \<noteq> lid" by auto
      with kk l0 c0 lt show ?thesis by (simp add: get_load_def)
    qed
    show "\<exists>l0. get_load ?s' k = Some l0 \<and> load_carrier l0 = Some (datastore_key ''Boat'' bid0)"
    proof (cases "bid0 = bid")
      case True
      with b0 bt have "b0 = ?b'" by simp
      with k have "k \<in> set (boat_loads b) \<or> k = ?lk" by auto
      then show ?thesis
      proof
        assume "k \<in> set (boat_loads b)"
        with keep [OF b] True show ?thesis by simp
      next
        assume "k = ?lk"
        with True lt show ?thesis by (simp add: get_load_def datastore_key_def)
      qed
    next
      case False
      with b0 bt have "boat_tbl s bid0 = Some b0" by simp
      from keep [OF this k] show ?thesis .
    qed
  qed
  ultimately show ?thesis by (simp add: assignment_invariant_def)
qed

lemma assign_handler_cases:
  "snd (assign_handler req s) = s
   \<or> (\<exists>b l. boat_tbl s (boat_id req) = Some b \<and> load_tbl s (load_id req) = Some l
         \<and> load_carrier l = None
         \<and> assign_handler req s =
             assign_persist (datastore_key ''Boat'' (boat_id req))
               (datastore_key ''Load'' (load_id req)) b l s)"
  by (auto simp: assign_handler_def get_boat_def get_load_def datastore_key_def Let_def
      split: option.splits)

lemma assign_handler_invariant:
  assumes "assignment_invariant s"
  shows "assignment_invariant (snd (assign_handler req s))"
  using assign_handler_cases [of req s] assms
  by (auto simp: assign_persist_invariant)


lemma unassign_persist_tables:
  "boat_tbl (snd (unassign_persist bk lk b l s)) =
     (boat_tbl s)(key_id bk \<mapsto> \<lparr>boat_name = boat_name b, boat_type = boat_type b,
        boat_length = boat_length b, boat_owner = JUndefined, boat_isPublic = JUndefined,
        boat_loads = filter (\<lambda>element. key_id element \<noteq> key_id lk) (boat_loads b)\<rparr>)"
  "load_tbl (snd (unassign_persist bk lk b l s)) =
     (load_tbl s)(key_id lk \<mapsto> \<lparr>load_volume = load_volume l, load_carrier = None,
        load_content = load_content l, load_creation_date = load_creation_date l\<rparr>)"
  by (simp_all add: unassign_persist_def update_boat_def update_load_def Let_def)

lemma unassign_persist_invariant:
  assumes inv: "assignment_invariant s"
    and b: "boat_tbl s bid = Some b"
    and l: "load_tbl s lid = Some l"
    and c: "load_carrier l = Some c"
    and eq: "key_id c = bid"
  shows "assignment_invariant
           (snd (unassign_persist (datastore_key ''Boat'' bid) (datastore_key ''Load'' lid) b l s))"
    (is "assignment_invariant ?s'")
proof -
  let ?bk = "datastore_key ''Boat'' bid" and ?lk = "datastore_key ''Load'' lid"
  let ?b' = "\<lparr>boat_name = boat_name b, boat_type = boat_type b,
        boat_length = boat_length b, boat_owner = JUndefined, boat_isPublic = JUndefined,
        boat_loads = filter (\<lambda>element. key_id element \<noteq> lid) (boat_loads b)\<rparr>"
  let ?l' = "\<lparr>load_volume = load_volume l, load_carrier = None,
        load_content = load_content l, load_creation_date = load_creation_date l\<rparr>"
  from inv have cs: "carrier_side s" and ls: "loads_side s"
    by (simp_all add: assignment_invariant_def)
  have bt: "boat_tbl ?s' = (boat_tbl s)(bid \<mapsto> ?b')"
    and lt: "load_tbl ?s' = (load_tbl s)(lid \<mapsto> ?l')"
    by (simp_all add: unassign_persist_tables datastore_key_def)
  have "carrier_side ?s'"
    unfolding carrier_side_def
  proof (intro allI impI, elim conjE)
    fix lid0 l0 c0
    assume l0: "load_tbl ?s' lid0 = Some l0" and c0: "load_carrier l0 = Some c0"
    from l0 c0 lt have ne: "lid0 \<noteq> lid" by auto
    with l0 lt have old: "load_tbl s lid0 = Some l0" by simp
    from carrier_sideD [OF cs old c0] obtain b0 where
      k: "key_kind c0 = ''Boat''" and b0: "boat_tbl s (key_id c0) = Some b0"
      and m: "datastore_key ''Load'' lid0 \<in> set (boat_loads b0)" by blast
    show "\<exists>b0. get_boat ?s' c0 = Some b0 \<and> datastore_key ''Load'' lid0 \<in> set (boat_loads b0)"
    proof (cases "key_id c0 = bid")
      case True
      with b0 b have "b0 = b" by simp
      with m True k bt ne show ?thesis by (simp add: get_boat_def datastore_key_def)
    next
      case False
      with b0 m k bt show ?thesis by (simp add: get_boat_def)
    qed
  qed
  moreover have "loads_side ?s'"
    unfolding loads_side_def
  proof (intro allI impI, elim conjE)
    fix bid0 b0 k
    assume b0: "boat_tbl ?s' bid0 = Some b0" and k: "k \<in> set (boat_loads b0)"
    have keep: "\<exists>l0. get_load ?s' k = Some l0 \<and> load_carrier l0 = Some (datastore_key ''Boat'' bid1)"
      if old: "boat_tbl s bid1 = Some b1" and k1: "k \<in> set (boat_loads b1)"
        and ne: "key_id k \<noteq> lid" for bid1 b1
    proof -
      from loads_sideD [OF ls old k1] obtain l0 where
        kk: "key_kind k = ''Load''" and l0: "load_tbl s (key_id k) = Some l0"
        and c0: "load_carrier l0 = Some (datastore_key ''Boat'' bid1)" by blast
      with ne lt show ?thesis by (simp add: get_load_def)
    qed
    show "\<exists>l0. get_load ?s' k = Some l0 \<and> load_carrier l0 = Some (datastore_key ''Boat'' bid0)"
    proof (cases "bid0 = bid")
      case True
      with b0 bt have "b0 = ?b'" by simp
      with k have "k \<in> set (boat_loads b)" and "key_id k \<noteq> lid" by auto
      with keep [OF b] True show ?thesis by simp
    next
      case False
      with b0 bt have old: "boat_tbl s bid0 = Some b0" by simp
      from loads_sideD [OF ls old k] obtain l0 where
        l0: "load_tbl s (key_id k) = Some l0"
        and c0: "load_carrier l0 = Some (datastore_key ''Boat'' bid0)" by blast
      have "key_id k \<noteq> lid"
      proof
        assume "key_id k = lid"
        with l0 l c c0 have "c = datastore_key ''Boat'' bid0" by simp
        with eq False show False by (simp add: datastore_key_def)
      qed
      from keep [OF old k this] show ?thesis .
    qed
  qed
  ultimately show ?thesis by (simp add: assignment_invariant_def)
qed

lemma unassign_handler_in_cases:
  "snd (unassign_handler_in scope req s) = s
   \<or> (\<exists>b l c. boat_tbl s (boat_id req) = Some b \<and> load_tbl s (load_id req) = Some l
         \<and> load_carrier l = Some c \<and> key_id c = boat_id req
         \<and> unassign_handler_in scope req s =
             unassign_persist (datastore_key ''Boat'' (boat_id req))
               (datastore_key ''Load'' (load_id req)) b l s)"
  by (auto simp: unassign_handler_in_def get_boat_def get_load_def datastore_key_def Let_def
      keysAreEqual_def split: option.splits sum.splits)

lemma unassign_handler_in_invariant:
  assumes "assignment_invariant s"
  shows "assignment_invariant (snd (unassign_handler_in scope req s))"
  using unassign_handler_in_cases [of scope req s] assms
  by (auto simp: unassign_persist_invariant)

lemma delete_boat_invariant:
  assumes inv: "assignment_invariant s"
    and b: "boat_tbl s bid = Some b"
    and e: "boat_loads b = []"
  shows "assignment_invariant (delete_boat (createBoatKey bid) s)" (is "assignment_invariant ?s'")
proof -
  from inv have cs: "carrier_side s" and ls: "loads_side s"
    by (simp_all add: assignment_invariant_def)
  have bt: "boat_tbl ?s' = (boat_tbl s)(bid := None)" and lt: "load_tbl ?s' = load_tbl s"
    by (simp_all add: delete_boat_def createBoatKey_def datastore_key_def)
  have "carrier_side ?s'"
    unfolding carrier_side_def
  proof (intro allI impI, elim conjE)
    fix lid0 l0 c0
    assume l0: "load_tbl ?s' lid0 = Some l0" and c0: "load_carrier l0 = Some c0"
    from l0 lt have old: "load_tbl s lid0 = Some l0" by simp
    from carrier_sideD [OF cs old c0] obtain b0 where
      k: "key_kind c0 = ''Boat''" and b0: "boat_tbl s (key_id c0) = Some b0"
      and m: "datastore_key ''Load'' lid0 \<in> set (boat_loads b0)" by blast
    from b0 m b e have "key_id c0 \<noteq> bid" by auto
    with b0 m k bt
    show "\<exists>b0. get_boat ?s' c0 = Some b0 \<and> datastore_key ''Load'' lid0 \<in> set (boat_loads b0)"
      by (simp add: get_boat_def)
  qed
  moreover have "loads_side ?s'"
    unfolding loads_side_def
  proof (intro allI impI, elim conjE)
    fix bid0 b0 k
    assume b0: "boat_tbl ?s' bid0 = Some b0" and k: "k \<in> set (boat_loads b0)"
    from b0 bt have old: "boat_tbl s bid0 = Some b0" by (simp split: if_splits)
    from loads_sideD [OF ls old k] lt
    show "\<exists>l0. get_load ?s' k = Some l0 \<and> load_carrier l0 = Some (datastore_key ''Boat'' bid0)"
      by (simp add: get_load_def)
  qed
  ultimately show ?thesis by (simp add: assignment_invariant_def)
qed

lemma delete_boat_handler_cases:
  "snd (delete_boat_handler req s) = s
   \<or> (\<exists>b. authenticated req \<and> boat_tbl s (boat_id req) = Some b
         \<and> boat_owner b = JStr (sub req)
         \<and> delete_boat_handler req s =
             (Responded 204 NoBody, delete_boat (createBoatKey (boat_id req)) s))"
  by (auto simp: delete_boat_handler_def getBoatFromID_def createBoatKey_def get_boat_def
      datastore_key_def Let_def split: option.splits)

lemma delete_boat_handler_owner:
  assumes "authenticated req" and "boat_tbl s (boat_id req) = Some b"
    and "boat_owner b = JStr (sub req)"
  shows "delete_boat_handler req s =
           (Responded 204 NoBody, delete_boat (createBoatKey (boat_id req)) s)"
  using assms
  by (simp add: delete_boat_handler_def getBoatFromID_def createBoatKey_def get_boat_def
      datastore_key_def Let_def)

text \<open>
  A Boat that still has its owner property is deleted for that owner whatever its loads
  (\<open>delete_boat_handler_owner\<close>); a Boat that lists a load has been stored by assign
  or unassign, and then the comparison of its missing owner with the caller fails.
\<close>

lemma store0_invariant: "assignment_invariant store0"
  by (auto simp: assignment_invariant_def carrier_side_def loads_side_def store0_def
      orca_def heron_def crate_def split: if_splits)

lemma store0_ownerless: "loaded_boats_ownerless store0"
  by (auto simp: loaded_boats_ownerless_def store0_def orca_def heron_def split: if_splits)

lemma no_assignments_relationship:
  assumes "no_assignments s"
  shows "assignment_invariant s" and "loaded_boats_ownerless s"
  using assms
  by (auto simp: no_assignments_def assignment_invariant_def carrier_side_def loads_side_def
      loaded_boats_ownerless_def)

lemma assign_handler_ownerless:
  assumes "loaded_boats_ownerless s"
  shows "loaded_boats_ownerless (snd (assign_handler req s))"
  using assign_handler_cases [of req s] assms
  by (auto simp: loaded_boats_ownerless_def assign_persist_tables datastore_key_def
      split: if_splits)

lemma unassign_handler_in_ownerless:
  assumes "loaded_boats_ownerless s"
  shows "loaded_boats_ownerless (snd (unassign_handler_in scope req s))"
  using unassign_handler_in_cases [of scope req s] assms
  by (auto simp: loaded_boats_ownerless_def unassign_persist_tables datastore_key_def
      split: if_splits)

lemma delete_boat_handler_ownerless:
  assumes "loaded_boats_ownerless s"
  shows "loaded_boats_ownerless (snd (delete_boat_handler req s))"
  using delete_boat_handler_cases [of req s] assms
  by (auto simp: loaded_boats_ownerless_def delete_boat_def createBoatKey_def datastore_key_def
      split: if_splits)

lemma delete_boat_handler_loaded:
  assumes "loaded_boats_ownerless s"
    and "boat_tbl s (boat_id req) = Some b" and "boat_loads b \<noteq> []"
  shows "delete_boat_handler req s =
           (if authenticated req
            then Responded 403 (ErrorBody ''This boat_id exists but you are not the owner.'')
            else Responded 401 (ErrorBody ''You must be authenticated to perform this action.''),
            s)"
proof -
  from assms have "boat_owner b = JUndefined"
    unfolding loaded_boats_ownerless_def by blast
  with assms(2) show ?thesis
    by (simp add: delete_boat_handler_def getBoatFromID_def createBoatKey_def get_boat_def
        datastore_key_def Let_def)
qed

lemma delete_boat_handler_invariant:
  assumes inv: "assignment_invariant s" and own: "loaded_boats_ownerless s"
  shows "assignment_invariant (snd (delete_boat_handler req s))"
proof -
  from delete_boat_handler_cases [of req s] show ?thesis
  proof
    assume "snd (delete_boat_handler req s) = s"
    with inv show ?thesis by simp
  next
    assume "\<exists>b. authenticated req \<and> boat_tbl s (boat_id req) = Some b
         \<and> boat_owner b = JStr (sub req)
         \<and> delete_boat_handler req s =
             (Responded 204 NoBody, delete_boat (createBoatKey (boat_id req)) s)"
    then obtain b where b: "boat_tbl s (boat_id req) = Some b"
      and o: "boat_owner b = JStr (sub req)"
      and r: "delete_boat_handler req s =
             (Responded 204 NoBody, delete_boat (createBoatKey (boat_id req)) s)" by blast
    have "boat_loads b = []"
    proof (rule ccontr)
      assume "boat_loads b \<noteq> []"
      with own b have "boat_owner b = JUndefined"
        unfolding loaded_boats_ownerless_def by blast
      with o show False by simp
    qed
    with inv b have "assignment_invariant (delete_boat (createBoatKey (boat_id req)) s)"
      by (rule delete_boat_invariant)
    with r show ?thesis by simp
  qed
qed

lemma update_handlers_store:
  "snd (patch_boat_handler rest req s) = s" "snd (put_boat_handler rest' req s) = s"
  by (simp_all add: patch_boat_handler_def patch_boat_handler_in_def put_boat_handler_def
      put_boat_handler_in_def resolve_def boats_module_scope_def)

text \<open>
  Any sequence of requests to the writing handlers, started where nothing is assigned,
  ends in a datastore where the relationship holds and every Boat that lists a load has
  no owner property.
\<close>

lemma run_call_relationship:
  assumes "assignment_invariant s" and "loaded_boats_ownerless s"
  shows "assignment_invariant (run_call rest c s) \<and> loaded_boats_ownerless (run_call rest c s)"
  using assms
  by (cases c)
    (simp_all add: assign_handler_invariant assign_handler_ownerless unassign_handler_def
      unassign_handler_in_invariant unassign_handler_in_ownerless delete_boat_handler_invariant
      delete_boat_handler_ownerless update_handlers_store)

lemma run_calls_relationship:
  assumes "assignment_invariant s" and "loaded_boats_ownerless s"
  shows "assignment_invariant (run_calls rest cs s) \<and> loaded_boats_ownerless (run_calls rest cs s)"
  using assms
proof (induction cs arbitrary: s)
  case Nil
  then show ?case by simp
next
  case (Cons c cs)
  from run_call_relationship [OF Cons.prems, of rest c]
  have "assignment_invariant (run_call rest c s)" and "loaded_boats_ownerless (run_call rest c s)"
    by simp_all
  then show ?case using Cons.IH by simp
qed

lemma run_calls_from_no_assignments:
  assumes "no_assignments s"
  shows "assignment_invariant (run_calls rest cs s) \<and> loaded_boats_ownerless (run_calls rest cs s)"
  using no_assignments_relationship [OF assms] by (rule run_calls_relationship)

text \<open>
  C2. Take a datastore in which the two-sided relationship holds and in which every Boat
  that lists a load has no owner property, as is the case where nothing is assigned and
  after every sequence of requests from there. Then assign, unassign and the boat DELETE
  each lead to a datastore with the same two properties, and the PATCH and PUT of a boat
  leave the datastore as it is. The DELETE of an existing Boat that lists a load, or
  that some Load names as its carrier, is refused (403 for an authenticated caller, 401
  otherwise) and the datastore is unchanged: nothing is removed and no reference is left
  dangling.
\<close>

theorem relationship_kept_by_boat_handlers:
  assumes "assignment_invariant s" and "loaded_boats_ownerless s"
  shows "assignment_invariant (snd (assign_handler req s))
       \<and> loaded_boats_ownerless (snd (assign_handler req s))
       \<and> assignment_invariant (snd (unassign_handler req s))
       \<and> loaded_boats_ownerless (snd (unassign_handler req s))
       \<and> assignment_invariant (snd (delete_boat_handler req s))
       \<and> loaded_boats_ownerless (snd (delete_boat_handler req s))
       \<and> snd (patch_boat_handler rest req s) = s
       \<and> snd (put_boat_handler rest' req s) = s
       \<and> (\<forall>b. boat_tbl s (boat_id req) = Some b
               \<and> (boat_loads b \<noteq> []
                  \<or> (\<exists>lid l. load_tbl s lid = Some l
                        \<and> load_carrier l = Some (datastore_key ''Boat'' (boat_id req)))) \<longrightarrow>
             delete_boat_handler req s =
               (if authenticated req
                then Responded 403 (ErrorBody ''This boat_id exists but you are not the owner.'')
                else Responded 401
                       (ErrorBody ''You must be authenticated to perform this action.''),
                s))"
proof -
  have a: "assignment_invariant (snd (assign_handler req s))"
    using assms(1) by (rule assign_handler_invariant)
  have a': "loaded_boats_ownerless (snd (assign_handler req s))"
    using assms(2) by (rule assign_handler_ownerless)
  have u: "assignment_invariant (snd (unassign_handler req s))"
    unfolding unassign_handler_def using assms(1) by (rule unassign_handler_in_invariant)
  have u': "loaded_boats_ownerless (snd (unassign_handler req s))"
    unfolding unassign_handler_def using assms(2) by (rule unassign_handler_in_ownerless)
  have d: "assignment_invariant (snd (delete_boat_handler req s))"
    using assms by (rule delete_boat_handler_invariant)
  have d': "loaded_boats_ownerless (snd (delete_boat_handler req s))"
    using assms(2) by (rule delete_boat_handler_ownerless)
  have g: "delete_boat_handler req s =
             (if authenticated req
              then Responded 403 (ErrorBody ''This boat_id exists but you are not the owner.'')
              else Responded 401
                     (ErrorBody ''You must be authenticated to perform this action.''),
              s)"
    if p: "boat_tbl s (boat_id req) = Some b
           \<and> (boat_loads b \<noteq> []
              \<or> (\<exists>lid l. load_tbl s lid = Some l
                    \<and> load_carrier l = Some (datastore_key ''Boat'' (boat_id req))))" for b
  proof -
    from p have b: "boat_tbl s (boat_id req) = Some b" by simp
    have "boat_loads b \<noteq> []"
    proof (cases "boat_loads b = []")
      case False
      then show ?thesis .
    next
      case True
      with p obtain lid l where l: "load_tbl s lid = Some l"
        and c: "load_carrier l = Some (datastore_key ''Boat'' (boat_id req))" by blast
      from assms(1) have cs: "carrier_side s" by (simp add: assignment_invariant_def)
      from carrier_sideD(2) [OF cs l c] b
      have "datastore_key ''Load'' lid \<in> set (boat_loads b)"
        by (simp add: datastore_key_def)
      then show ?thesis by auto
    qed
    with assms(2) b show ?thesis by (rule delete_boat_handler_loaded)
  qed
  from a a' u u' d d' g update_handlers_store(1) [of rest req s]
    update_handlers_store(2) [of rest' req s]
  show ?thesis by blast
qed

text \<open>Load 9 is assigned to Boat 1, and then the owner asks to delete Boat 1.\<close>

lemma after_assign_boat:
  "boat_tbl (snd (assign_handler (req_for True ''1'' ''9'') store0)) ''1'' =
     Some \<lparr>boat_name = JStr ''Orca'', boat_type = JStr ''Sloop'', boat_length = JNum 30,
        boat_owner = JUndefined, boat_isPublic = JUndefined,
        boat_loads = [datastore_key ''Load'' ''9'']\<rparr>"
  by (simp add: assign_handler_def assign_persist_def get_boat_def get_load_def
      update_boat_def update_load_def datastore_key_def req_for_def
      store0_def orca_def crate_def Let_def)

theorem relationship_kept_by_boat_handlers_witness:
  "assignment_invariant store0 \<and> loaded_boats_ownerless store0
   \<and> assignment_invariant (snd (assign_handler (req_for True ''1'' ''9'') store0))
   \<and> loaded_boats_ownerless (snd (assign_handler (req_for True ''1'' ''9'') store0))
   \<and> delete_boat_handler (req_for True ''1'' ''9'')
        (snd (assign_handler (req_for True ''1'' ''9'') store0)) =
      (Responded 403 (ErrorBody ''This boat_id exists but you are not the owner.''),
       snd (assign_handler (req_for True ''1'' ''9'') store0))"
proof -
  let ?req = "req_for True ''1'' ''9''"
  let ?s1 = "snd (assign_handler ?req store0)"
  let ?b = "\<lparr>boat_name = JStr ''Orca'', boat_type = JStr ''Sloop'', boat_length = JNum 30,
        boat_owner = JUndefined, boat_isPublic = JUndefined,
        boat_loads = [datastore_key ''Load'' ''9'']\<rparr>"
  note t0 = relationship_kept_by_boat_handlers [OF store0_invariant store0_ownerless, of ?req]
  from t0 have i1: "assignment_invariant ?s1" and o1: "loaded_boats_ownerless ?s1" by blast+
  note t1 = relationship_kept_by_boat_handlers [OF i1 o1, of ?req]
  have id1: "boat_id ?req = ''1''" and au: "authenticated ?req" by (simp_all add: req_for_def)
  have p: "boat_tbl ?s1 (boat_id ?req) = Some ?b \<and> (boat_loads ?b \<noteq> []
      \<or> (\<exists>lid l. load_tbl ?s1 lid = Some l
            \<and> load_carrier l = Some (datastore_key ''Boat'' (boat_id ?req))))"
    using after_assign_boat by (simp add: id1)
  from t1 p have "delete_boat_handler ?req ?s1 =
      (if authenticated ?req
       then Responded 403 (ErrorBody ''This boat_id exists but you are not the owner.'')
       else Responded 401 (ErrorBody ''You must be authenticated to perform this action.''),
       ?s1)" by blast
  with au have "delete_boat_handler ?req ?s1 =
      (Responded 403 (ErrorBody ''This boat_id exists but you are not the owner.''), ?s1)"
    by simp
  with store0_invariant store0_ownerless i1 o1 show ?thesis by blast
qed

end
